theory Spec2Isabelle
  imports Complex_Main "HOL-Library.AList" "HOL-Library.Sublist"
begin

section \<open>Python values, dictionaries and exceptions\<close>

text \<open>
  The pipeline threads \<^verbatim>\<open>Dict[str, Any]\<close> values through its stages, so the model has
  one type of Python values. A dictionary is an association list in insertion order
  with string keys. \<open>PObj cls txt\<close> is an object of any other class (a \<^verbatim>\<open>Decimal\<close> or
  \<^verbatim>\<open>datetime\<close> cell of a result row), given by its class name and its text; such an
  object is truthy and has no \<^verbatim>\<open>get\<close>. Strings are lists of 8-bit characters.
\<close>

datatype pyval =
    PNone
  | PBool bool
  | PInt int
  | PFloat real
  | PStr string
  | PList "pyval list"
  | PDict "(string \<times> pyval) list"
  | PObj string string

type_synonym pydict = "(string \<times> pyval) list"

text \<open>
  Exceptions, all of them instances of \<^verbatim>\<open>Exception\<close> (what \<^verbatim>\<open>except Exception\<close>
  catches). \<open>Error\<close> is any class the code does not tell apart, with its message.
\<close>

datatype exn =
    KeyError string
  | AttributeError string
  | JSONDecodeError string
  | Error string

text \<open>\<^verbatim>\<open>str(e)\<close>: a \<^verbatim>\<open>KeyError\<close> prints the repr of its key.\<close>

fun exc_str :: "exn \<Rightarrow> string" where
  "exc_str (KeyError k) = [CHR 0x27] @ k @ [CHR 0x27]"
| "exc_str (AttributeError m) = m"
| "exc_str (JSONDecodeError m) = m"
| "exc_str (Error m) = m"

text \<open>\<^verbatim>\<open>bool(v)\<close>, the truth value Python tests in \<^verbatim>\<open>if v\<close> and \<^verbatim>\<open>not v\<close>.\<close>

fun truthy :: "pyval \<Rightarrow> bool" where
  "truthy PNone = False"
| "truthy (PBool b) = b"
| "truthy (PInt i) = (i \<noteq> 0)"
| "truthy (PFloat r) = (r \<noteq> 0)"
| "truthy (PStr s) = (s \<noteq> [])"
| "truthy (PList xs) = (xs \<noteq> [])"
| "truthy (PDict d) = (d \<noteq> [])"
| "truthy (PObj c t) = True"

fun type_name :: "pyval \<Rightarrow> string" where
  "type_name PNone = ''NoneType''"
| "type_name (PBool b) = ''bool''"
| "type_name (PInt i) = ''int''"
| "type_name (PFloat r) = ''float''"
| "type_name (PStr s) = ''str''"
| "type_name (PList xs) = ''list''"
| "type_name (PDict d) = ''dict''"
| "type_name (PObj c t) = c"

text \<open>\<^verbatim>\<open>d[k]\<close> raises \<^verbatim>\<open>KeyError\<close> on a missing key.\<close>

definition dict_item :: "pydict \<Rightarrow> string \<Rightarrow> exn + pyval" where
  "dict_item d k = (case map_of d k of None \<Rightarrow> Inl (KeyError k) | Some v \<Rightarrow> Inr v)"

text \<open>\<^verbatim>\<open>d.get(k, default)\<close> on a dictionary.\<close>

definition dict_get :: "pydict \<Rightarrow> string \<Rightarrow> pyval \<Rightarrow> pyval" where
  "dict_get d k dflt = (case map_of d k of None \<Rightarrow> dflt | Some v \<Rightarrow> v)"

text \<open>
  \<^verbatim>\<open>v.get(k, default)\<close> on any value: only a dictionary has the method.
\<close>

definition py_get :: "pyval \<Rightarrow> string \<Rightarrow> pyval \<Rightarrow> exn + pyval" where
  "py_get v k dflt =
     (case v of
        PDict d \<Rightarrow> Inr (dict_get d k dflt)
      | _ \<Rightarrow> Inl (AttributeError
                 ([CHR 0x27] @ type_name v @ [CHR 0x27] @ '' object has no attribute ''
                   @ [CHR 0x27] @ ''get'' @ [CHR 0x27])))"

text \<open>
  \<^verbatim>\<open>d[k] = v\<close>, and so one entry of \<^verbatim>\<open>{**d, k: v}\<close>: an existing key keeps its place and
  takes the new value, a new key goes last.
\<close>

definition dict_set :: "pydict \<Rightarrow> string \<Rightarrow> pyval \<Rightarrow> pydict" where
  "dict_set d k v = AList.update k v d"

text \<open>
  \<^verbatim>\<open>dict(pairs)\<close> and \<^verbatim>\<open>d.update(e)\<close> store the pairs one after the other, in order.
\<close>

definition dict_update :: "pydict \<Rightarrow> (string \<times> pyval) list \<Rightarrow> pydict" where
  "dict_update d ps = foldl (\<lambda>acc (k, v). dict_set acc k v) d ps"

definition dict_of :: "(string \<times> pyval) list \<Rightarrow> pydict" where
  "dict_of ps = dict_update [] ps"

section \<open>The environment: language model, JSON decoder, database driver, clock\<close>

text \<open>
  What the code calls outside the repository is a parameter of the model. Each call
  either raises or returns.

  \<^item> \<open>now k\<close> is the \<open>k\<close>-th reading of \<^verbatim>\<open>datetime.now().timestamp()\<close>; float seconds
    are read as reals, and no property below computes with them.
  \<^item> \<open>relevance_chain\<close>, \<open>sql_chain\<close> and \<open>readable_chain\<close> are \<^verbatim>\<open>chain.invoke\<close> of the
    three prompt chains of \<^verbatim>\<open>tools.py\<close>.
  \<^item> \<open>json_loads\<close> is \<^verbatim>\<open>json.loads\<close>.
  \<^item> \<open>get_database_schema\<close> is the schema text of \<^verbatim>\<open>database.get_database_schema\<close>,
    which catches every exception itself and returns a string; the session it opens
    for its own query is not part of the log below.
  \<^item> \<open>session_local\<close> is \<^verbatim>\<open>SessionLocal()\<close>; \<open>db_execute\<close>, \<open>db_commit\<close>,
    \<open>db_rollback\<close> and \<open>db_close\<close> are the session's methods (\<open>None\<close>: no exception);
    \<open>db_execute E q\<close> is \<^verbatim>\<open>db.execute(text(q))\<close> for a string \<open>q\<close>.
  \<^item> \<open>text_error v\<close> is the exception that sqlalchemy's \<^verbatim>\<open>text(v)\<close> raises for a value
    \<open>v\<close> that is not a string.
  \<^item> \<open>str_builtin\<close> is \<^verbatim>\<open>str(v)\<close> for a value that is not a string.
\<close>

record cursor =
  fetchall :: "exn + pyval list list"
  keys :: "exn + string list"

record env =
  now :: "nat \<Rightarrow> real"
  relevance_chain :: "pyval \<Rightarrow> exn + string"
  json_loads :: "string \<Rightarrow> exn + pyval"
  get_database_schema :: "string"
  sql_chain :: "string \<Rightarrow> pyval \<Rightarrow> pyval \<Rightarrow> exn + string"
  readable_chain :: "pyval \<Rightarrow> pyval \<Rightarrow> exn + string"
  session_local :: "exn option"
  db_execute :: "pyval \<Rightarrow> exn + cursor"
  db_commit :: "pyval \<Rightarrow> exn option"
  db_rollback :: "exn option"
  db_close :: "exn option"
  text_error :: "pyval \<Rightarrow> exn"
  str_builtin :: "pyval \<Rightarrow> string"

definition py_str :: "env \<Rightarrow> pyval \<Rightarrow> string" where
  "py_str E v = (case v of PStr s \<Rightarrow> s | _ \<Rightarrow> str_builtin E v)"

section \<open>tool\_monitoring.py\<close>

record ToolInvocation =
  tool_name :: string
  inputs :: pydict
  outputs :: pyval
  timestamp :: real
  duration :: real

record ToolMonitor =
  invocations :: "ToolInvocation list"
  start_time :: real

text \<open>
  The state the code changes: the global \<^verbatim>\<open>tool_monitor\<close>, the number of clock readings
  taken so far, and the calls made on the sessions that \<^verbatim>\<open>get_db\<close> hands out.
\<close>

datatype db_event = Execute pyval | Commit | Rollback | Close

record world =
  monitor :: ToolMonitor
  ticks :: nat
  db_log :: "db_event list"

type_synonym 'a res = "(exn + 'a) \<times> world"

definition start_invocation :: "env \<Rightarrow> string \<Rightarrow> pydict \<Rightarrow> world \<Rightarrow> world" where
  "start_invocation E name ins w =
     w\<lparr>monitor := (monitor w)\<lparr>start_time := now E (ticks w)\<rparr>, ticks := Suc (ticks w)\<rparr>"

definition end_invocation :: "env \<Rightarrow> string \<Rightarrow> pydict \<Rightarrow> pyval \<Rightarrow> world \<Rightarrow> world" where
  "end_invocation E name ins outs w =
     (let end_time = now E (ticks w);
          dur = end_time - start_time (monitor w);
          invocation = \<lparr>tool_name = name, inputs = ins, outputs = outs,
                         timestamp = start_time (monitor w), duration = dur\<rparr>
      in w\<lparr>monitor := (monitor w)\<lparr>invocations := invocations (monitor w) @ [invocation]\<rparr>,
            ticks := Suc (ticks w)\<rparr>)"

definition clear :: "world \<Rightarrow> world" where
  "clear w = w\<lparr>monitor := (monitor w)\<lparr>invocations := []\<rparr>\<rparr>"

text \<open>
  \<^verbatim>\<open>ToolMonitor.__call__\<close>: the wrapper around a decorated function. \<open>args\<close> and
  \<open>kwargs\<close> are what the caller passed; \<open>body\<close> is \<^verbatim>\<open>func(*args, **kwargs)\<close>. Only
  \<open>kwargs\<close> reaches \<open>start_invocation\<close> and \<open>end_invocation\<close>.
\<close>

definition tool_monitor ::
  "env \<Rightarrow> string \<Rightarrow> pyval list \<Rightarrow> pydict \<Rightarrow> (world \<Rightarrow> pyval res) \<Rightarrow> world \<Rightarrow> pyval res" where
  "tool_monitor E name args kwargs body w =
     (let w1 = start_invocation E name kwargs w in
      case body w1 of
        (Inr outs, w2) \<Rightarrow> (Inr outs, end_invocation E name kwargs outs w2)
      | (Inl e, w2) \<Rightarrow>
          (Inl e, end_invocation E name kwargs (PStr (''Error: '' @ exc_str e)) w2))"

section \<open>database.py\<close>

definition log_db :: "db_event \<Rightarrow> world \<Rightarrow> world" where
  "log_db ev w = w\<lparr>db_log := db_log w @ [ev]\<rparr>"

text \<open>
  The context manager \<^verbatim>\<open>get_db\<close> around the body of a \<^verbatim>\<open>with\<close> block: the session is
  created before the \<^verbatim>\<open>try\<close>; an exception leaving the body is answered with
  \<^verbatim>\<open>db.rollback()\<close> and raised again; \<^verbatim>\<open>db.close()\<close> runs in the \<^verbatim>\<open>finally\<close>, and an
  exception of its own replaces whatever the block was about to deliver.
\<close>

definition get_db :: "env \<Rightarrow> (world \<Rightarrow> 'a res) \<Rightarrow> world \<Rightarrow> 'a res" where
  "get_db E body w =
     (case session_local E of
        Some e \<Rightarrow> (Inl e, w)
      | None \<Rightarrow>
          (let (r, w2) =
                 (case body w of
                    (Inr v, w1) \<Rightarrow> (Inr v, w1)
                  | (Inl e, w1) \<Rightarrow>
                      (case db_rollback E of
                         Some e' \<Rightarrow> (Inl e', log_db Rollback w1)
                       | None \<Rightarrow> (Inl e, log_db Rollback w1)));
               w3 = log_db Close w2
           in case db_close E of
                Some e' \<Rightarrow> (Inl e', w3)
              | None \<Rightarrow> (r, w3)))"

section \<open>tools.py\<close>

subsection \<open>String methods\<close>

text \<open>
  \<^verbatim>\<open>str.lower\<close>, \<^verbatim>\<open>str.strip\<close> and \<^verbatim>\<open>str.startswith\<close> on code points below 256:
  \<open>lower\<close> maps A-Z and the Latin-1 capitals to their small letters, \<open>strip\<close> removes
  the characters for which \<^verbatim>\<open>str.isspace\<close> holds from both ends.
\<close>

definition lower_char :: "char \<Rightarrow> char" where
  "lower_char c =
     (let n = (of_char c :: nat)
      in if (65 \<le> n \<and> n \<le> 90) \<or> (192 \<le> n \<and> n \<le> 222 \<and> n \<noteq> 215)
         then char_of (n + 32) else c)"

definition lower :: "string \<Rightarrow> string" where
  "lower s = map lower_char s"

definition isspace :: "char \<Rightarrow> bool" where
  "isspace c = ((of_char c :: nat) \<in> {9, 10, 11, 12, 13, 28, 29, 30, 31, 32, 133, 160})"

definition strip :: "string \<Rightarrow> string" where
  "strip s = rev (dropWhile isspace (rev (dropWhile isspace s)))"

definition startswith :: "string \<Rightarrow> string \<Rightarrow> bool" where
  "startswith s p = (take (length p) s = p)"

subsection \<open>check\_relevance\<close>

definition default_breakdown :: pyval where
  "default_breakdown =
     PDict [(''intent'', PStr ''unknown''), (''entities'', PList []),
            (''conditions'', PList []), (''timeframe'', PStr ''none'')]"

text \<open>
  The dictionary literal that \<^verbatim>\<open>check_relevance\<close> writes three times, with its
  explanation.
\<close>

definition default_response :: "string \<Rightarrow> pydict" where
  "default_response explanation =
     [(''relevant'', PBool False), (''tables'', PList []),
      (''breakdown'', default_breakdown), (''explanation'', PStr explanation)]"

definition check_relevance_func :: "env \<Rightarrow> pyval \<Rightarrow> world \<Rightarrow> pyval res" where
  "check_relevance_func E question w =
     (case relevance_chain E question of
        Inl e \<Rightarrow> (Inr (PDict (default_response (''Error: '' @ exc_str e))), w)
      | Inr result \<Rightarrow>
          (case json_loads E result of
             Inl (JSONDecodeError m) \<Rightarrow>
               (Inr (PDict (default_response ''Failed to parse response'')), w)
           | Inl e \<Rightarrow> (Inr (PDict (default_response (''Error: '' @ exc_str e))), w)
           | Inr (PDict parsed_result) \<Rightarrow>
               (Inr (PDict (dict_update (default_response ''No explanation provided'')
                                        parsed_result)), w)
           | Inr _ \<Rightarrow> (Inr (PDict (default_response ''No explanation provided'')), w)))"

text \<open>
  The decorated functions, called the way \<^verbatim>\<open>sql_agent.py\<close> calls them: every argument
  is positional, so the wrapper's \<open>kwargs\<close> is empty.
\<close>

definition check_relevance :: "env \<Rightarrow> pyval \<Rightarrow> world \<Rightarrow> pyval res" where
  "check_relevance E question =
     tool_monitor E ''check_relevance'' [question] [] (check_relevance_func E question)"

subsection \<open>convert\_to\_sql\<close>

definition convert_to_sql_func :: "env \<Rightarrow> pyval \<Rightarrow> pyval \<Rightarrow> world \<Rightarrow> pyval res" where
  "convert_to_sql_func E question context w =
     (let schema = get_database_schema E
      in case sql_chain E schema question context of
           Inl e \<Rightarrow> (Inr PNone, w)
         | Inr result \<Rightarrow> (Inr (PStr result), w))"

definition convert_to_sql :: "env \<Rightarrow> pyval \<Rightarrow> pyval \<Rightarrow> world \<Rightarrow> pyval res" where
  "convert_to_sql E question context =
     tool_monitor E ''convert_to_sql'' [question, context] []
       (convert_to_sql_func E question context)"

subsection \<open>execute\_sql\_query\<close>

text \<open>The dictionary of the \<^verbatim>\<open>except\<close> branch.\<close>

definition failure_result :: "exn \<Rightarrow> pyval" where
  "failure_result e = PDict [(''success'', PBool False), (''error'', PStr (exc_str e))]"

text \<open>\<^verbatim>\<open>query.lower().strip().startswith("select")\<close>\<close>

definition is_select :: "string \<Rightarrow> bool" where
  "is_select query = startswith (strip (lower query)) ''select''"

text \<open>
  The block under \<^verbatim>\<open>with get_db() as db\<close>; everything in it is inside the \<^verbatim>\<open>try\<close>.
  For a string, \<open>db_execute E query\<close> is \<^verbatim>\<open>db.execute(text(query))\<close> and \<open>Execute query\<close>
  in the log is that call. For a value that is not a string \<^verbatim>\<open>text(query)\<close> raises
  before the session is called, and the \<^verbatim>\<open>except\<close> branch answers.
\<close>

definition execute_sql_query_body :: "env \<Rightarrow> pyval \<Rightarrow> world \<Rightarrow> pyval res" where
  "execute_sql_query_body E query w =
     (case query of
        PStr q \<Rightarrow>
          (let w1 = log_db (Execute query) w in
           case db_execute E query of
             Inl e \<Rightarrow> (Inr (failure_result e), w1)
           | Inr result \<Rightarrow>
               if is_select q then
                 (case fetchall result of
                    Inl e \<Rightarrow> (Inr (failure_result e), w1)
                  | Inr rows \<Rightarrow>
                      (case keys result of
                         Inl e \<Rightarrow> (Inr (failure_result e), w1)
                       | Inr columns \<Rightarrow>
                           (let formatted_rows =
                                  map (\<lambda>row. PDict (dict_of (zip columns row))) rows
                            in (Inr (PDict [(''success'', PBool True),
                                            (''rows'', PList formatted_rows),
                                            (''columns'', PList (map PStr columns))]),
                                w1))))
               else
                 (let w2 = log_db Commit w1 in
                  case db_commit E query of
                    Some e \<Rightarrow> (Inr (failure_result e), w2)
                  | None \<Rightarrow> (Inr (PDict [(''success'', PBool True)]), w2)))
      | _ \<Rightarrow> (Inr (failure_result (text_error E query)), w))"

definition execute_sql_query_func :: "env \<Rightarrow> pyval \<Rightarrow> world \<Rightarrow> pyval res" where
  "execute_sql_query_func E query = get_db E (execute_sql_query_body E query)"

definition execute_sql_query :: "env \<Rightarrow> pyval \<Rightarrow> world \<Rightarrow> pyval res" where
  "execute_sql_query E query =
     tool_monitor E ''execute_sql_query'' [query] [] (execute_sql_query_func E query)"

subsection \<open>generate\_human\_readable\<close>

definition generate_human_readable_func ::
  "env \<Rightarrow> pyval \<Rightarrow> pyval \<Rightarrow> world \<Rightarrow> pyval res" where
  "generate_human_readable_func E sql result w =
     (case readable_chain E sql result of
        Inl e \<Rightarrow> (Inr (PStr (''Error processing results: '' @ exc_str e)), w)
      | Inr response \<Rightarrow> (Inr (PStr response), w))"

definition generate_human_readable :: "env \<Rightarrow> pyval \<Rightarrow> pyval \<Rightarrow> world \<Rightarrow> pyval res" where
  "generate_human_readable E sql result =
     tool_monitor E ''generate_human_readable'' [sql, result] []
       (generate_human_readable_func E sql result)"

section \<open>sql\_agent.py\<close>

text \<open>
  The state of the graph is a dictionary; every node returns \<^verbatim>\<open>{**state, ...}\<close>.
\<close>

definition relevance_fallback :: "string \<Rightarrow> pyval" where
  "relevance_fallback error_msg =
     PDict [(''relevant'', PBool False), (''explanation'', PStr error_msg),
            (''tables'', PList []), (''breakdown'', default_breakdown)]"

definition agent_check_relevance :: "env \<Rightarrow> pydict \<Rightarrow> world \<Rightarrow> pydict res" where
  "agent_check_relevance E state w =
     (case dict_item state ''question'' of
        Inl e \<Rightarrow>
          (Inr (dict_set state ''relevance_result''
                  (relevance_fallback (''Error in relevance check: '' @ exc_str e))), w)
      | Inr question \<Rightarrow>
          (case check_relevance E question w of
             (Inr relevance_result, w1) \<Rightarrow>
               (Inr (dict_set state ''relevance_result'' relevance_result), w1)
           | (Inl e, w1) \<Rightarrow>
               (Inr (dict_set state ''relevance_result''
                       (relevance_fallback (''Error in relevance check: '' @ exc_str e))),
                w1)))"

definition sql_conversion_failed :: "pydict \<Rightarrow> exn \<Rightarrow> pydict" where
  "sql_conversion_failed state e =
     dict_set (dict_set (dict_set state ''sql_error'' (PBool True)) ''sql_query'' (PStr []))
       ''query_result'' (PStr (''Error in SQL conversion: '' @ exc_str e))"

definition agent_convert_to_sql :: "env \<Rightarrow> pydict \<Rightarrow> world \<Rightarrow> pydict res" where
  "agent_convert_to_sql E state w =
     (case dict_item state ''question'' of
        Inl e \<Rightarrow> (Inr (sql_conversion_failed state e), w)
      | Inr question \<Rightarrow>
          (case dict_item state ''relevance_result'' of
             Inl e \<Rightarrow> (Inr (sql_conversion_failed state e), w)
           | Inr relevance_result \<Rightarrow>
               (case convert_to_sql E question relevance_result w of
                  (Inl e, w1) \<Rightarrow> (Inr (sql_conversion_failed state e), w1)
                | (Inr sql_query, w1) \<Rightarrow>
                    (Inr (dict_set
                            (dict_set state ''sql_query''
                               (if truthy sql_query then sql_query else PStr []))
                            ''sql_error'' (PBool (\<not> truthy sql_query))),
                     w1))))"

definition sql_execution_failed :: "pydict \<Rightarrow> string \<Rightarrow> pydict" where
  "sql_execution_failed state error_msg =
     dict_set (dict_set state ''sql_error'' (PBool True)) ''query_result'' (PStr error_msg)"

text \<open>
  \<^verbatim>\<open>_execute_sql\<close>: the test of \<^verbatim>\<open>state["sql_query"]\<close> stands before the \<^verbatim>\<open>try\<close>, so a
  missing key raises out of the node.
\<close>

definition agent_execute_sql :: "env \<Rightarrow> pydict \<Rightarrow> world \<Rightarrow> pydict res" where
  "agent_execute_sql E state w =
     (case dict_item state ''sql_query'' of
        Inl e \<Rightarrow> (Inl e, w)
      | Inr sql_query \<Rightarrow>
          if \<not> truthy sql_query
          then (Inr (sql_execution_failed state ''Failed to generate SQL query''), w)
          else
            (case execute_sql_query E sql_query w of
               (Inl e, w1) \<Rightarrow>
                 (Inr (sql_execution_failed state (''Error executing SQL: '' @ exc_str e)), w1)
             | (Inr result, w1) \<Rightarrow>
                 (case py_get result ''success'' PNone of
                    Inl e \<Rightarrow>
                      (Inr (sql_execution_failed state
                              (''Error executing SQL: '' @ exc_str e)), w1)
                  | Inr success \<Rightarrow>
                      if \<not> truthy success
                      then
                        (case py_get result ''error''
                                (PStr ''Unknown error during query execution'') of
                           Inl e \<Rightarrow>
                             (Inr (sql_execution_failed state
                                     (''Error executing SQL: '' @ exc_str e)), w1)
                         | Inr error_msg \<Rightarrow>
                             (Inr (sql_execution_failed state
                                     (''Error: '' @ py_str E error_msg)), w1))
                      else
                        (case py_get result ''rows'' (PList []) of
                           Inl e \<Rightarrow>
                             (Inr (sql_execution_failed state
                                     (''Error executing SQL: '' @ exc_str e)), w1)
                         | Inr rows \<Rightarrow>
                             (case py_get result ''columns'' (PList []) of
                                Inl e \<Rightarrow>
                                  (Inr (sql_execution_failed state
                                          (''Error executing SQL: '' @ exc_str e)), w1)
                              | Inr columns \<Rightarrow>
                                  (Inr (dict_set
                                          (dict_set
                                             (dict_set
                                                (dict_set state ''sql_error'' (PBool False))
                                                ''query_rows'' rows)
                                             ''columns'' columns)
                                          ''query_result''
                                          (PStr ''Query executed successfully'')),
                                   w1))))))"

text \<open>
  The two arguments that \<^verbatim>\<open>_generate_human_readable\<close> builds for the formatter, in
  the order Python evaluates them.
\<close>

definition formatter_args :: "pydict \<Rightarrow> exn + pyval \<times> pyval" where
  "formatter_args state =
     (case dict_item state ''sql_query'' of Inl e \<Rightarrow> Inl e | Inr sql \<Rightarrow>
     (case dict_item state ''query_rows'' of Inl e \<Rightarrow> Inl e | Inr rows \<Rightarrow>
     (case dict_item state ''columns'' of Inl e \<Rightarrow> Inl e | Inr columns \<Rightarrow>
     (case dict_item state ''sql_error'' of Inl e \<Rightarrow> Inl e | Inr sql_error \<Rightarrow>
     (case dict_item state ''question'' of Inl e \<Rightarrow> Inl e | Inr question \<Rightarrow>
        Inr (sql, PDict [(''rows'', rows), (''columns'', columns),
                         (''success'', PBool (\<not> truthy sql_error)),
                         (''question'', question)]))))))"

definition agent_generate_human_readable :: "env \<Rightarrow> pydict \<Rightarrow> world \<Rightarrow> pydict res" where
  "agent_generate_human_readable E state w =
     (case formatter_args state of
        Inl e \<Rightarrow>
          (Inr (dict_set state ''query_result''
                  (PStr (''Error generating readable response: '' @ exc_str e))), w)
      | Inr (sql, result) \<Rightarrow>
          (case generate_human_readable E sql result w of
             (Inl e, w1) \<Rightarrow>
               (Inr (dict_set state ''query_result''
                       (PStr (''Error generating readable response: '' @ exc_str e))), w1)
           | (Inr response, w1) \<Rightarrow> (Inr (dict_set state ''query_result'' response), w1)))"

text \<open>
  The function on the conditional edge out of \<^verbatim>\<open>check_relevance\<close>: it names the next
  node, \<open>END\<close> being LangGraph's end marker.
\<close>

definition END :: string where
  "END = ''__end__''"

definition route :: "pydict \<Rightarrow> exn + string" where
  "route x =
     (case dict_item x ''relevance_result'' of
        Inl e \<Rightarrow> Inl e
      | Inr r \<Rightarrow>
          (case py_get r ''relevant'' (PBool False) of
             Inl e \<Rightarrow> Inl e
           | Inr relevant \<Rightarrow> Inr (if truthy relevant then ''convert_to_sql'' else END)))"

text \<open>
  The compiled graph of \<^verbatim>\<open>_create_workflow\<close>, as LangGraph runs it for a state type
  without channels: the entry node gets the input, every node gets the dictionary the
  node before it returned, an exception in a node or on an edge ends the run, and
  \<^verbatim>\<open>invoke\<close> returns the last dictionary.
\<close>

definition workflow :: "env \<Rightarrow> pydict \<Rightarrow> world \<Rightarrow> pyval res" where
  "workflow E state w =
     (case agent_check_relevance E state w of
        (Inl e, w1) \<Rightarrow> (Inl e, w1)
      | (Inr s1, w1) \<Rightarrow>
          (case route s1 of
             Inl e \<Rightarrow> (Inl e, w1)
           | Inr next_node \<Rightarrow>
               if next_node = END then (Inr (PDict s1), w1)
               else
                 (case agent_convert_to_sql E s1 w1 of
                    (Inl e, w2) \<Rightarrow> (Inl e, w2)
                  | (Inr s2, w2) \<Rightarrow>
                      (case agent_execute_sql E s2 w2 of
                         (Inl e, w3) \<Rightarrow> (Inl e, w3)
                       | (Inr s3, w3) \<Rightarrow>
                           (case agent_generate_human_readable E s3 w3 of
                              (Inl e, w4) \<Rightarrow> (Inl e, w4)
                            | (Inr s4, w4) \<Rightarrow> (Inr (PDict s4), w4))))))"

definition initial_state :: "string \<Rightarrow> pydict" where
  "initial_state question =
     [(''question'', PStr question), (''relevance_result'', PNone),
      (''sql_query'', PStr []), (''query_result'', PStr []),
      (''query_rows'', PList []), (''columns'', PList []),
      (''attempts'', PInt 0), (''sql_error'', PBool False)]"

text \<open>
  \<^verbatim>\<open>SQLAgent.run\<close>, for any compiled graph \<open>graph\<close> held in \<^verbatim>\<open>self.workflow\<close>; the agent
  that \<^verbatim>\<open>__init__\<close> builds runs \<open>workflow E\<close>.
\<close>

definition run :: "(pydict \<Rightarrow> world \<Rightarrow> pyval res) \<Rightarrow> string \<Rightarrow> world \<Rightarrow> pydict res" where
  "run graph question w =
     (case graph (initial_state question) w of
        (Inr (PDict result), w1) \<Rightarrow>
          (Inr [(''query_result'',
                   dict_get result ''query_result'' (PStr ''Error processing request'')),
                (''relevance_result'', dict_get result ''relevance_result'' PNone),
                (''sql_query'', dict_get result ''sql_query'' PNone)], w1)
      | (Inr _, w1) \<Rightarrow>
          (Inr [(''query_result'', PStr ''Error: Unexpected result type''),
                (''relevance_result'', PNone), (''sql_query'', PNone)], w1)
      | (Inl e, w1) \<Rightarrow>
          (Inr [(''query_result'', PStr (''Error processing request: '' @ exc_str e)),
                (''relevance_result'', PNone), (''sql_query'', PNone)], w1))"

section \<open>Notions used to state the properties\<close>

text \<open>The entries that a computation from world \<open>w\<close> to world \<open>w'\<close> added to the log.\<close>

definition new_invocations :: "world \<Rightarrow> world \<Rightarrow> ToolInvocation list" where
  "new_invocations w w' = drop (length (invocations (monitor w))) (invocations (monitor w'))"

text \<open>
  World \<open>w'\<close> has the log of \<open>w\<close> followed by entries whose inputs are all empty.
\<close>

definition extends_log :: "world \<Rightarrow> world \<Rightarrow> bool" where
  "extends_log w w' =
     (\<exists>new. invocations (monitor w') = invocations (monitor w) @ new \<and>
            (\<forall>i \<in> set new. inputs i = []))"

text \<open>
  The classifier's result has a \<open>breakdown\<close> that is a mapping with the four keys
  \<open>intent\<close>, \<open>entities\<close>, \<open>conditions\<close> and \<open>timeframe\<close>.
\<close>

definition breakdown_complete :: "pyval \<Rightarrow> bool" where
  "breakdown_complete r =
     (case r of
        PDict d \<Rightarrow>
          (case map_of d ''breakdown'' of
             Some (PDict b) \<Rightarrow>
               list_all (\<lambda>k. map_of b k \<noteq> None)
                 [''intent'', ''entities'', ''conditions'', ''timeframe'']
           | _ \<Rightarrow> False)
      | _ \<Rightarrow> False)"

text \<open>
  What the model sent: the mapping it returned, if its output decoded to one, and the
  entry of that mapping under \<open>breakdown\<close> (the last one, should the list hold the key
  twice; a Python dictionary holds it once).
\<close>

definition model_mapping :: "env \<Rightarrow> pyval \<Rightarrow> pydict option" where
  "model_mapping E question =
     (case relevance_chain E question of
        Inl e \<Rightarrow> None
      | Inr result \<Rightarrow>
          (case json_loads E result of Inr (PDict p) \<Rightarrow> Some p | _ \<Rightarrow> None))"

definition model_breakdown :: "env \<Rightarrow> pyval \<Rightarrow> pyval option" where
  "model_breakdown E question =
     (case model_mapping E question of
        None \<Rightarrow> None
      | Some p \<Rightarrow> map_of (rev p) ''breakdown'')"

definition is_decode_error :: "exn \<Rightarrow> bool" where
  "is_decode_error e = (case e of JSONDecodeError m \<Rightarrow> True | _ \<Rightarrow> False)"

definition is_dict :: "pyval \<Rightarrow> bool" where
  "is_dict v = (case v of PDict d \<Rightarrow> True | _ \<Rightarrow> False)"

text \<open>
  The strings inside a value, dictionary keys included, and whether a text occurs in one
  of them.
\<close>

primrec strings_of :: "pyval \<Rightarrow> string list" where
  "strings_of PNone = []"
| "strings_of (PBool b) = []"
| "strings_of (PInt i) = []"
| "strings_of (PFloat r) = []"
| "strings_of (PStr s) = [s]"
| "strings_of (PList xs) = concat (map strings_of xs)"
| "strings_of (PDict kvs) = concat (map (\<lambda>kv. fst kv # snd kv) (map (map_prod id strings_of) kvs))"
| "strings_of (PObj c t) = [t]"

definition mentions :: "string \<Rightarrow> pyval \<Rightarrow> bool" where
  "mentions t v = list_ex (sublist t) (strings_of v)"




section \<open>Sample environments\<close>

text \<open>
  Concrete inputs for the closed theorems below. \<open>world0\<close> is a fresh process: a cleared
  monitor, no clock reading taken, no session used. In \<open>env0\<close> every outside call
  succeeds: the model answers the relevance prompt with a JSON object, the decoder
  decodes that text (and rejects any other), the synthesizer returns one \<^verbatim>\<open>SELECT\<close>, and
  the driver answers it with one row of two columns of the same name; any other
  statement is a syntax error to the driver. The other environments change one call
  each; the driver of \<open>env_rows\<close> answers every statement with that row.
\<close>

definition world0 :: world where
  "world0 = \<lparr>monitor = \<lparr>invocations = [], start_time = 0\<rparr>, ticks = 0, db_log = []\<rparr>"

definition relevance_text0 :: string where
  \<open>relevance_text0 = ''{"relevant": true, "explanation": "about customers"}''\<close>

definition env0 :: env where
  "env0 =
     \<lparr>now = (\<lambda>k. real k),
      relevance_chain = (\<lambda>q. Inr relevance_text0),
      json_loads = (\<lambda>s. if s = relevance_text0
                          then Inr (PDict [(''relevant'', PBool True),
                                           (''explanation'', PStr ''about customers'')])
                          else Inl (JSONDecodeError ''Expecting value'')),
      get_database_schema = ''Table: customers'',
      sql_chain = (\<lambda>schema q c. Inr ''SELECT name, name FROM dbo.customers''),
      readable_chain = (\<lambda>sql r. Inr ''There is one customer.''),
      session_local = None,
      db_execute = (\<lambda>q. if q = PStr ''SELECT name, name FROM dbo.customers''
                          then Inr \<lparr>fetchall = Inr [[PStr ''Ann'', PStr ''Bob'']],
                                    keys = Inr [''name'', ''name'']\<rparr>
                          else Inl (Error ''syntax error'')),
      db_commit = (\<lambda>q. None),
      db_rollback = None,
      db_close = None,
      text_error = (\<lambda>v. Error ''expected string or bytes-like object''),
      str_builtin = (\<lambda>v. type_name v)\<rparr>"

definition irrelevant_text :: string where
  \<open>irrelevant_text =
     ''{"relevant": false, "explanation": "The question is about the weather."}''\<close>

definition env_irrelevant :: env where
  "env_irrelevant =
     env0\<lparr>relevance_chain := (\<lambda>q. Inr irrelevant_text),
          json_loads := (\<lambda>s. if s = irrelevant_text
                              then Inr (PDict [(''relevant'', PBool False),
                                               (''explanation'',
                                                PStr ''The question is about the weather.'')])
                              else Inl (JSONDecodeError ''Expecting value''))\<rparr>"

definition partial_text :: string where
  \<open>partial_text = ''{"relevant": true, "breakdown": {"intent": "list customers"}}''\<close>

definition env_partial :: env where
  "env_partial =
     env0\<lparr>relevance_chain := (\<lambda>q. Inr partial_text),
          json_loads := (\<lambda>s. if s = partial_text
                              then Inr (PDict [(''relevant'', PBool True),
                                               (''breakdown'',
                                                PDict [(''intent'', PStr ''list customers'')])])
                              else Inl (JSONDecodeError ''Expecting value''))\<rparr>"

definition list_text :: string where
  \<open>list_text = ''["dbo.customers"]''\<close>

definition env_list :: env where
  "env_list =
     env0\<lparr>relevance_chain := (\<lambda>q. Inr list_text),
          json_loads := (\<lambda>s. if s = list_text then Inr (PList [PStr ''dbo.customers''])
                              else Inl (JSONDecodeError ''Expecting value''))\<rparr>"

definition env_down :: env where
  "env_down = env0\<lparr>relevance_chain := (\<lambda>q. Inl (Error ''Rate limit exceeded''))\<rparr>"

definition env_prose :: env where
  "env_prose = env0\<lparr>relevance_chain := (\<lambda>q. Inr ''Sure, here is my analysis.'')\<rparr>"

definition env_deep :: env where
  "env_deep = env0\<lparr>json_loads := (\<lambda>s. Inl (Error ''maximum recursion depth exceeded''))\<rparr>"


definition env_bad_sql :: env where
  "env_bad_sql = env0\<lparr>sql_chain := (\<lambda>schema q c. Inr ''SELEC * FROM dbo.customers'')\<rparr>"


section \<open>Dictionaries and the monitor: basic facts\<close>

lemma map_of_dict_set: "map_of (dict_set d k v) = (map_of d)(k \<mapsto> v)"
  by (simp add: dict_set_def update_conv')

lemma dict_item_dict_set:
  "dict_item (dict_set d k v) k' = (if k' = k then Inr v else dict_item d k')"
  by (simp add: dict_item_def map_of_dict_set)

lemma dict_get_dict_set:
  "dict_get (dict_set d k v) k' dflt = (if k' = k then v else dict_get d k' dflt)"
  by (simp add: dict_get_def map_of_dict_set)

lemma map_of_dict_update: "map_of (dict_update d ps) = map_of d ++ map_of (rev ps)"
proof (induction ps arbitrary: d)
  case Nil
  show ?case by (simp add: dict_update_def)
next
  case (Cons p ps)
  obtain k v where p: "p = (k, v)" by (cases p)
  have "dict_update d (p # ps) = dict_update (dict_set d k v) ps"
    by (simp add: dict_update_def p)
  then show ?case
    using Cons.IH [of "dict_set d k v"]
    by (simp add: p map_of_dict_set map_add_upd_left fun_eq_iff map_add_def split: option.splits)
qed


lemma invocations_end_invocation:
  "invocations (monitor (end_invocation E name ins outs w)) =
     invocations (monitor w) @
       [\<lparr>tool_name = name, inputs = ins, outputs = outs,
         timestamp = start_time (monitor w),
         duration = now E (ticks w) - start_time (monitor w)\<rparr>]"
  by (simp add: end_invocation_def Let_def)

lemma invocations_start_invocation:
  "invocations (monitor (start_invocation E name ins w)) = invocations (monitor w)"
  by (simp add: start_invocation_def)

lemma db_log_end_invocation: "db_log (end_invocation E name ins outs w) = db_log w"
  by (simp add: end_invocation_def Let_def)

lemma db_log_start_invocation: "db_log (start_invocation E name ins w) = db_log w"
  by (simp add: start_invocation_def)

lemma dict_item_Cons:
  "dict_item ((k, v) # d) k' = (if k' = k then Inr v else dict_item d k')"
  by (simp add: dict_item_def)

lemma dict_item_Nil: "dict_item [] k = Inl (KeyError k)"
  by (simp add: dict_item_def)


lemma new_invocations_append:
  "invocations (monitor w') = invocations (monitor w) @ new \<Longrightarrow> new_invocations w w' = new"
  by (simp add: new_invocations_def)

lemmas check_defs =
  check_relevance_def tool_monitor_def check_relevance_func_def
  dict_set_def dict_update_def default_response_def start_invocation_def end_invocation_def
  Let_def

lemmas run_defs =
  workflow_def agent_check_relevance_def check_relevance_def tool_monitor_def
  check_relevance_func_def initial_state_def dict_item_Cons dict_item_Nil dict_set_def
  dict_update_def default_response_def route_def py_get_def dict_get_def END_def
  start_invocation_def end_invocation_def relevance_text0_def
  agent_convert_to_sql_def convert_to_sql_def convert_to_sql_func_def
  agent_execute_sql_def execute_sql_query_def execute_sql_query_func_def get_db_def
  execute_sql_query_body_def log_db_def failure_result_def sql_execution_failed_def
  py_str_def agent_generate_human_readable_def formatter_args_def
  generate_human_readable_def generate_human_readable_func_def Let_def

section \<open>The invocation recorder\<close>

text \<open>
  C9. The wrapper runs the wrapped body. When the body returns \<open>v\<close>, the wrapper returns
  \<open>v\<close> and the log grows by one \<open>ToolInvocation\<close> whose outputs are \<open>v\<close>. When the body
  raises \<open>e\<close>, the log grows by one \<open>ToolInvocation\<close> whose outputs are the string
  \<^verbatim>\<open>"Error: "\<close> followed by \<^verbatim>\<open>str(e)\<close>, and the wrapper raises the same \<open>e\<close>.
\<close>

theorem tool_monitor_records:
  "(body (start_invocation E name kwargs w) = (Inr v, w') \<longrightarrow>
      tool_monitor E name args kwargs body w = (Inr v, end_invocation E name kwargs v w') \<and>
      invocations (monitor (end_invocation E name kwargs v w')) =
        invocations (monitor w') @
          [\<lparr>tool_name = name, inputs = kwargs, outputs = v,
            timestamp = start_time (monitor w'),
            duration = now E (ticks w') - start_time (monitor w')\<rparr>])
   \<and> (body (start_invocation E name kwargs w) = (Inl e, w') \<longrightarrow>
      tool_monitor E name args kwargs body w =
        (Inl e, end_invocation E name kwargs (PStr (''Error: '' @ exc_str e)) w') \<and>
      invocations (monitor (end_invocation E name kwargs (PStr (''Error: '' @ exc_str e)) w')) =
        invocations (monitor w') @
          [\<lparr>tool_name = name, inputs = kwargs, outputs = PStr (''Error: '' @ exc_str e),
            timestamp = start_time (monitor w'),
            duration = now E (ticks w') - start_time (monitor w')\<rparr>])"
  by (simp add: tool_monitor_def Let_def invocations_end_invocation)

theorem tool_monitor_records_witness:
  "fst (tool_monitor env0 ''probe'' [PInt 1] [] (\<lambda>w. (Inr (PInt 2), w)) world0) = Inr (PInt 2)
   \<and> map outputs (invocations (monitor (snd
        (tool_monitor env0 ''probe'' [PInt 1] [] (\<lambda>w. (Inr (PInt 2), w)) world0)))) = [PInt 2]
   \<and> fst (tool_monitor env0 ''probe'' [PInt 1] [] (\<lambda>w. (Inl (Error ''boom''), w)) world0)
       = Inl (Error ''boom'')
   \<and> map outputs (invocations (monitor (snd
        (tool_monitor env0 ''probe'' [PInt 1] [] (\<lambda>w. (Inl (Error ''boom''), w)) world0))))
       = [PStr ''Error: boom'']"
  using
    tool_monitor_records [where body = "\<lambda>w. (Inr (PInt 2), w)" and E = env0
      and name = "''probe''" and kwargs = "[]" and args = "[PInt 1]" and w = world0
      and v = "PInt 2" and w' = "start_invocation env0 ''probe'' [] world0"]
    tool_monitor_records [where body = "\<lambda>w. (Inl (Error ''boom''), w)" and E = env0
      and name = "''probe''" and kwargs = "[]" and args = "[PInt 1]" and w = world0
      and e = "Error ''boom''" and w' = "start_invocation env0 ''probe'' [] world0"]
  by (simp add: start_invocation_def world0_def)

section \<open>The relevance classifier\<close>

lemma check_relevance_func_world: "snd (check_relevance_func E q w) = w"
  by (simp add: check_relevance_func_def split: sum.splits exn.splits pyval.splits)

lemma check_relevance_func_indep:
  "fst (check_relevance_func E q w) = fst (check_relevance_func E q w')"
  by (simp add: check_relevance_func_def split: sum.splits exn.splits pyval.splits)

lemma check_relevance_func_dict: "\<exists>d. fst (check_relevance_func E q w) = Inr (PDict d)"
  by (simp add: check_relevance_func_def split: sum.splits exn.splits pyval.splits)

lemma check_relevance_eq:
  assumes "fst (check_relevance_func E q w0) = Inr v"
  shows "check_relevance E q w =
           (Inr v, end_invocation E ''check_relevance'' [] v
                     (start_invocation E ''check_relevance'' [] w))"
proof -
  let ?w1 = "start_invocation E ''check_relevance'' [] w"
  have "fst (check_relevance_func E q ?w1) = Inr v"
    using assms check_relevance_func_indep [of E q ?w1 w0] by simp
  moreover have "snd (check_relevance_func E q ?w1) = ?w1"
    by (rule check_relevance_func_world)
  ultimately have "check_relevance_func E q ?w1 = (Inr v, ?w1)"
    by (simp add: prod_eq_iff)
  then show ?thesis
    by (simp add: check_relevance_def tool_monitor_def Let_def)
qed

lemma check_relevance_fst:
  "fst (check_relevance E q w) = fst (check_relevance_func E q w)"
proof -
  obtain d where "fst (check_relevance_func E q w) = Inr (PDict d)"
    using check_relevance_func_dict by blast
  then show ?thesis using check_relevance_eq [of E q w "PDict d" w] by simp
qed

lemma check_relevance_world:
  assumes "check_relevance E q w = (r, w')"
  shows "\<exists>i. invocations (monitor w') = invocations (monitor w) @ [i] \<and>
             tool_name i = ''check_relevance''"
    and "db_log w' = db_log w"
proof -
  obtain d where "fst (check_relevance_func E q w) = Inr (PDict d)"
    using check_relevance_func_dict by blast
  from check_relevance_eq [OF this, of w] assms
  have w': "w' = end_invocation E ''check_relevance'' [] (PDict d)
                  (start_invocation E ''check_relevance'' [] w)"
    by simp
  show "\<exists>i. invocations (monitor w') = invocations (monitor w) @ [i] \<and>
             tool_name i = ''check_relevance''"
    by (simp add: w' invocations_end_invocation invocations_start_invocation)
  show "db_log w' = db_log w"
    by (simp add: w' db_log_end_invocation db_log_start_invocation)
qed

text \<open>
  C7, as the code has it. For every question the classifier returns a dictionary with
  the keys \<open>relevant\<close>, \<open>tables\<close>, \<open>breakdown\<close> and \<open>explanation\<close>, and never raises.
  A failed model call gives the default result with the explanation \<^verbatim>\<open>"Error: "\<close> and
  the failure's text. Output that does not decode gives the default with
  \<^verbatim>\<open>"Failed to parse response"\<close>; any other exception of the decoder is treated like a
  failed call. Output that decodes to something other than a mapping gives the default
  with \<^verbatim>\<open>"No explanation provided"\<close>. A mapping is merged onto that default: its
  entries win, and the keys it lacks keep their defaults.
\<close>

theorem check_relevance_shapes:
  "(\<exists>d. fst (check_relevance E q w) = Inr (PDict d) \<and>
         list_all (\<lambda>k. map_of d k \<noteq> None)
           [''relevant'', ''tables'', ''breakdown'', ''explanation''])
   \<and> (\<forall>e. relevance_chain E q = Inl e \<longrightarrow>
          fst (check_relevance E q w) = Inr (PDict (default_response (''Error: '' @ exc_str e))))
   \<and> (\<forall>s e. relevance_chain E q = Inr s \<and> json_loads E s = Inl e \<and> is_decode_error e \<longrightarrow>
          fst (check_relevance E q w) = Inr (PDict (default_response ''Failed to parse response'')))
   \<and> (\<forall>s e. relevance_chain E q = Inr s \<and> json_loads E s = Inl e \<and> \<not> is_decode_error e \<longrightarrow>
          fst (check_relevance E q w) = Inr (PDict (default_response (''Error: '' @ exc_str e))))
   \<and> (\<forall>s v. relevance_chain E q = Inr s \<and> json_loads E s = Inr v \<and> \<not> is_dict v \<longrightarrow>
          fst (check_relevance E q w) = Inr (PDict (default_response ''No explanation provided'')))
   \<and> (\<forall>s p. relevance_chain E q = Inr s \<and> json_loads E s = Inr (PDict p) \<longrightarrow>
          (\<exists>d. fst (check_relevance E q w) = Inr (PDict d) \<and>
               map_of d = map_of (default_response ''No explanation provided'') ++ map_of (rev p)))"
  unfolding check_relevance_fst
  apply (intro conjI allI impI)
  subgoal
    by (auto simp add: check_relevance_func_def default_response_def map_of_dict_update
        map_add_def split: sum.splits exn.splits pyval.splits option.splits)
  subgoal by (simp add: check_relevance_func_def)
  subgoal by (auto simp add: check_relevance_func_def is_decode_error_def split: exn.splits)
  subgoal by (auto simp add: check_relevance_func_def is_decode_error_def split: exn.splits)
  subgoal by (auto simp add: check_relevance_func_def is_dict_def split: pyval.splits)
  subgoal by (simp add: check_relevance_func_def map_of_dict_update)
  done

text \<open>
  C7 as stated fails where the output decodes but is not a mapping. The model answers
  with the JSON list \<^verbatim>\<open>["dbo.customers"]\<close>; the result is the default with the
  explanation \<^verbatim>\<open>"No explanation provided"\<close>, which says nothing of a parse failure.
\<close>

theorem check_relevance_non_mapping_counterexample:
  "json_loads env_list list_text = Inr (PList [PStr ''dbo.customers''])
   \<and> fst (check_relevance env_list (PStr ''List all customers'') world0) =
     Inr (PDict [(''relevant'', PBool False), (''tables'', PList []),
                 (''breakdown'', default_breakdown),
                 (''explanation'', PStr ''No explanation provided'')])"
  by (simp add: env_list_def env0_def world0_def check_defs)

text \<open>
  The five cases of C7 at concrete inputs: a rate-limited model, prose instead of JSON,
  a decoder that runs out of stack, a JSON list, and a JSON object with two of the
  four keys.
\<close>

theorem check_relevance_shapes_witness:
  "fst (check_relevance env_down (PStr ''List all customers'') world0) =
     Inr (PDict (default_response ''Error: Rate limit exceeded''))
   \<and> fst (check_relevance env_prose (PStr ''List all customers'') world0) =
     Inr (PDict (default_response ''Failed to parse response''))
   \<and> fst (check_relevance env_deep (PStr ''List all customers'') world0) =
     Inr (PDict (default_response ''Error: maximum recursion depth exceeded''))
   \<and> fst (check_relevance env_list (PStr ''List all customers'') world0) =
     Inr (PDict (default_response ''No explanation provided''))
   \<and> (\<exists>d. fst (check_relevance env0 (PStr ''List all customers'') world0) = Inr (PDict d) \<and>
          map_of d ''relevant'' = Some (PBool True) \<and>
          map_of d ''explanation'' = Some (PStr ''about customers'') \<and>
          map_of d ''tables'' = Some (PList []))"
proof -
  let ?q = "PStr ''List all customers''"
  have a: "relevance_chain env_down ?q = Inl (Error ''Rate limit exceeded'')"
    by (simp add: env_down_def env0_def)
  have b: "relevance_chain env_prose ?q = Inr ''Sure, here is my analysis.'' \<and>
           json_loads env_prose ''Sure, here is my analysis.'' =
             Inl (JSONDecodeError ''Expecting value'') \<and>
           is_decode_error (JSONDecodeError ''Expecting value'')"
    by (simp add: env_prose_def env0_def is_decode_error_def relevance_text0_def)
  have c: "relevance_chain env_deep ?q = Inr relevance_text0 \<and>
           json_loads env_deep relevance_text0 = Inl (Error ''maximum recursion depth exceeded'') \<and>
           \<not> is_decode_error (Error ''maximum recursion depth exceeded'')"
    by (simp add: env_deep_def env0_def is_decode_error_def)
  have d: "relevance_chain env_list ?q = Inr list_text \<and>
           json_loads env_list list_text = Inr (PList [PStr ''dbo.customers'']) \<and>
           \<not> is_dict (PList [PStr ''dbo.customers''])"
    by (simp add: env_list_def env0_def is_dict_def)
  have e: "relevance_chain env0 ?q = Inr relevance_text0 \<and>
           json_loads env0 relevance_text0 =
             Inr (PDict [(''relevant'', PBool True),
                         (''explanation'', PStr ''about customers'')])"
    by (simp add: env0_def)
  note t1 = check_relevance_shapes [of env_down ?q world0]
  note t2 = check_relevance_shapes [of env_prose ?q world0]
  note t3 = check_relevance_shapes [of env_deep ?q world0]
  note t4 = check_relevance_shapes [of env_list ?q world0]
  note t5 = check_relevance_shapes [of env0 ?q world0]
  have r1: "fst (check_relevance env_down ?q world0) =
     Inr (PDict (default_response ''Error: Rate limit exceeded''))"
    using t1 a by simp
  have r2: "fst (check_relevance env_prose ?q world0) =
     Inr (PDict (default_response ''Failed to parse response''))"
    using t2 b by blast
  have r3: "fst (check_relevance env_deep ?q world0) =
     Inr (PDict (default_response ''Error: maximum recursion depth exceeded''))"
    using t3 c by fastforce
  have r4: "fst (check_relevance env_list ?q world0) =
     Inr (PDict (default_response ''No explanation provided''))"
    using t4 d by blast
  have "\<exists>d. fst (check_relevance env0 ?q world0) = Inr (PDict d) \<and>
       map_of d = map_of (default_response ''No explanation provided'') ++
         map_of (rev [(''relevant'', PBool True), (''explanation'', PStr ''about customers'')])"
    using t5 e by blast
  then have r5: "\<exists>d. fst (check_relevance env0 ?q world0) = Inr (PDict d) \<and>
          map_of d ''relevant'' = Some (PBool True) \<and>
          map_of d ''explanation'' = Some (PStr ''about customers'') \<and>
          map_of d ''tables'' = Some (PList [])"
    by (auto simp add: default_response_def)
  from r1 r2 r3 r4 r5 show ?thesis by simp
qed

lemma breakdown_entry_of_result:
  "\<exists>d. fst (check_relevance_func E q w) = Inr (PDict d) \<and>
       map_of d ''breakdown'' =
         Some (case model_breakdown E q of None \<Rightarrow> default_breakdown | Some b \<Rightarrow> b)"
  by (auto simp add: check_relevance_func_def model_mapping_def model_breakdown_def
      default_response_def map_of_dict_update map_add_def
      split: sum.splits exn.splits pyval.splits option.splits)

text \<open>
  C3, as the code has it. The \<open>breakdown\<close> of the classifier's result is the default
  mapping with all four keys whenever the model's output gave no \<open>breakdown\<close> entry
  of its own: the call failed, the output did not decode, it was not a mapping, or it
  was a mapping without that key. When the model's mapping has a \<open>breakdown\<close> entry,
  the result carries that entry as it is: the merge replaces whole top-level entries
  and does not look inside them.
\<close>

theorem check_relevance_breakdown:
  "\<exists>d. fst (check_relevance E q w) = Inr (PDict d) \<and>
       map_of d ''breakdown'' =
         Some (case model_breakdown E q of None \<Rightarrow> default_breakdown | Some b \<Rightarrow> b) \<and>
       (model_breakdown E q = None \<longrightarrow> breakdown_complete (PDict d))"
proof -
  obtain d where d: "fst (check_relevance_func E q w) = Inr (PDict d)"
    and b: "map_of d ''breakdown'' =
              Some (case model_breakdown E q of None \<Rightarrow> default_breakdown | Some b \<Rightarrow> b)"
    using breakdown_entry_of_result by blast
  have "breakdown_complete (PDict d)" if "model_breakdown E q = None"
    using b that by (simp add: breakdown_complete_def default_breakdown_def)
  with d b show ?thesis by (auto simp add: check_relevance_fst)
qed

text \<open>
  C3 as stated fails for a well-formed mapping whose own \<open>breakdown\<close> is partial: the
  model sends a breakdown with \<open>intent\<close> only, and the result's breakdown has that one
  key.
\<close>

theorem check_relevance_breakdown_counterexample:
  "fst (check_relevance env_partial (PStr ''List all customers'') world0) =
     Inr (PDict [(''relevant'', PBool True), (''tables'', PList []),
                 (''breakdown'', PDict [(''intent'', PStr ''list customers'')]),
                 (''explanation'', PStr ''No explanation provided'')])
   \<and> \<not> breakdown_complete
         (PDict [(''relevant'', PBool True), (''tables'', PList []),
                 (''breakdown'', PDict [(''intent'', PStr ''list customers'')]),
                 (''explanation'', PStr ''No explanation provided'')])"
  by (simp add: env_partial_def env0_def world0_def check_defs breakdown_complete_def)

text \<open>
  The hypothesis of C3 at a concrete input: the mapping of \<open>env0\<close> has no \<open>breakdown\<close>
  entry, and the result's breakdown is complete.
\<close>

theorem check_relevance_breakdown_witness:
  "model_breakdown env0 (PStr ''List all customers'') = None
   \<and> (\<exists>d. fst (check_relevance env0 (PStr ''List all customers'') world0) = Inr (PDict d) \<and>
           breakdown_complete (PDict d))"
proof -
  have "model_breakdown env0 (PStr ''List all customers'') = None"
    by (simp add: model_breakdown_def model_mapping_def env0_def)
  with check_relevance_breakdown [of env0 "PStr ''List all customers''" world0]
  show ?thesis by auto
qed

section \<open>The query executor\<close>

lemma execute_sql_query_unfold:
  "execute_sql_query E query w =
     (case get_db E (execute_sql_query_body E query)
             (start_invocation E ''execute_sql_query'' [] w) of
        (Inr outs, w2) \<Rightarrow> (Inr outs, end_invocation E ''execute_sql_query'' [] outs w2)
      | (Inl e, w2) \<Rightarrow>
          (Inl e, end_invocation E ''execute_sql_query'' []
                    (PStr (''Error: '' @ exc_str e)) w2))"
  by (simp add: execute_sql_query_def execute_sql_query_func_def tool_monitor_def Let_def)

text \<open>
  \<^verbatim>\<open>get_db\<close> rolls the session back when its block raises. The block of
  \<^verbatim>\<open>execute_sql_query\<close> catches every exception itself, so on that path the
  session is never rolled back, whatever the statement and the driver do.
\<close>

lemma get_db_rolls_back:
  assumes "session_local E = None" and "body w = (Inl e, w1)"
  shows "db_log (snd (get_db E body w)) = db_log w1 @ [Rollback, Close]"
  using assms by (simp add: get_db_def log_db_def Let_def split: option.splits)

lemma execute_sql_query_never_rolls_back:
  "\<exists>evs. db_log (snd (execute_sql_query E query w)) = db_log w @ evs \<and> Rollback \<notin> set evs"
  by (auto simp add: execute_sql_query_unfold get_db_def execute_sql_query_body_def Let_def
      log_db_def db_log_end_invocation db_log_start_invocation
      split: option.splits sum.splits pyval.splits prod.splits)

lemma execute_sql_query_outcomes:
  "(\<exists>e. fst (execute_sql_query E query w) = Inl e)
   \<or> (\<exists>e. fst (execute_sql_query E query w) = Inr (failure_result e))
   \<or> (\<exists>d. fst (execute_sql_query E query w) = Inr (PDict d) \<and>
           map_of d ''success'' = Some (PBool True))"
  by (auto simp add: execute_sql_query_def execute_sql_query_func_def tool_monitor_def
      get_db_def execute_sql_query_body_def Let_def
      split: option.splits sum.splits pyval.splits prod.splits)













text \<open>
  C4 at a failing input. The driver rejects \<^verbatim>\<open>SELEC * FROM dbo.customers\<close> with
  \<^verbatim>\<open>syntax error\<close>. The executor returns \<open>success = False\<close> with that text and the
  session is closed, but the session's calls are \<open>execute\<close> and \<open>close\<close> only: there is
  no rollback.
\<close>

theorem execute_sql_query_error_no_rollback:
  "db_execute env0 (PStr ''SELEC * FROM dbo.customers'') = Inl (Error ''syntax error'')
   \<and> fst (execute_sql_query env0 (PStr ''SELEC * FROM dbo.customers'') world0) =
       Inr (PDict [(''success'', PBool False), (''error'', PStr ''syntax error'')])
   \<and> db_log (snd (execute_sql_query env0 (PStr ''SELEC * FROM dbo.customers'') world0)) =
       [Execute (PStr ''SELEC * FROM dbo.customers''), Close]"
  by (simp add: execute_sql_query_unfold get_db_def execute_sql_query_body_def Let_def
      log_db_def db_log_end_invocation db_log_start_invocation env0_def world0_def
      failure_result_def start_invocation_def)

section \<open>What a stage adds to the log\<close>

lemma convert_to_sql_fst:
  "fst (convert_to_sql E q c w) =
     Inr (case sql_chain E (get_database_schema E) q c of Inl e \<Rightarrow> PNone | Inr s \<Rightarrow> PStr s)"
  by (simp add: convert_to_sql_def convert_to_sql_func_def tool_monitor_def Let_def
      split: sum.splits)


lemma generate_human_readable_world:
  assumes "generate_human_readable E s c w = (r, w')"
  shows "\<exists>i. invocations (monitor w') = invocations (monitor w) @ [i] \<and>
             tool_name i = ''generate_human_readable''"
    and "db_log w' = db_log w"
    and "\<exists>resp. r = Inr (PStr resp)"
  using assms
  by (auto simp add: generate_human_readable_def generate_human_readable_func_def
      tool_monitor_def Let_def
      invocations_end_invocation invocations_start_invocation
      db_log_end_invocation db_log_start_invocation split: sum.splits)

lemma extends_log_refl: "extends_log w w"
  by (simp add: extends_log_def)

lemma extends_log_trans: "extends_log w w1 \<Longrightarrow> extends_log w1 w2 \<Longrightarrow> extends_log w w2"
  by (auto simp add: extends_log_def)

lemma extends_log_tool_monitor:
  assumes "monitor (snd (body (start_invocation E name [] w))) =
             monitor (start_invocation E name [] w)"
  shows "extends_log w (snd (tool_monitor E name args [] body w))"
proof -
  let ?w1 = "start_invocation E name [] w"
  obtain r w2 where b: "body ?w1 = (r, w2)" by (cases "body ?w1")
  with assms have "invocations (monitor w2) = invocations (monitor w)"
    by (simp add: invocations_start_invocation)
  with b show ?thesis
    by (cases r) (simp_all add: tool_monitor_def Let_def extends_log_def
        invocations_end_invocation)
qed

lemma monitor_get_db_execute:
  "monitor (snd (get_db E (execute_sql_query_body E query) w)) = monitor w"
  by (simp add: get_db_def execute_sql_query_body_def log_db_def Let_def
      split: option.splits sum.splits pyval.splits prod.splits)

lemma extends_log_check_relevance: "check_relevance E q w = (r, w') \<Longrightarrow> extends_log w w'"
  using extends_log_tool_monitor [of "check_relevance_func E q" E "''check_relevance''" w "[q]"]
  by (simp add: check_relevance_def check_relevance_func_world)

lemma extends_log_convert_to_sql: "convert_to_sql E q c w = (r, w') \<Longrightarrow> extends_log w w'"
  using extends_log_tool_monitor [of "convert_to_sql_func E q c" E "''convert_to_sql''" w "[q, c]"]
  by (simp add: convert_to_sql_def convert_to_sql_func_def Let_def split: sum.splits)

lemma extends_log_execute_sql_query: "execute_sql_query E q w = (r, w') \<Longrightarrow> extends_log w w'"
  using extends_log_tool_monitor [of "execute_sql_query_func E q" E "''execute_sql_query''" w "[q]"]
  by (simp add: execute_sql_query_def execute_sql_query_func_def monitor_get_db_execute)

lemma extends_log_generate_human_readable:
  "generate_human_readable E s c w = (r, w') \<Longrightarrow> extends_log w w'"
  using extends_log_tool_monitor [of "generate_human_readable_func E s c" E
      "''generate_human_readable''" w "[s, c]"]
  by (simp add: generate_human_readable_def generate_human_readable_func_def split: sum.splits)

lemma extends_log_agent_check_relevance:
  "agent_check_relevance E s w = (r, w') \<Longrightarrow> extends_log w w'"
  by (auto simp add: agent_check_relevance_def extends_log_refl
      split: sum.splits prod.splits dest: extends_log_check_relevance)

lemma extends_log_agent_convert_to_sql:
  "agent_convert_to_sql E s w = (r, w') \<Longrightarrow> extends_log w w'"
  by (auto simp add: agent_convert_to_sql_def extends_log_refl
      split: sum.splits prod.splits dest: extends_log_convert_to_sql)

lemma extends_log_agent_execute_sql:
  "agent_execute_sql E s w = (r, w') \<Longrightarrow> extends_log w w'"
  by (auto simp add: agent_execute_sql_def extends_log_refl
      split: sum.splits prod.splits if_splits dest: extends_log_execute_sql_query)

lemma extends_log_agent_generate_human_readable:
  "agent_generate_human_readable E s w = (r, w') \<Longrightarrow> extends_log w w'"
  by (auto simp add: agent_generate_human_readable_def extends_log_refl
      split: sum.splits prod.splits dest: extends_log_generate_human_readable)

lemma extends_log_workflow: "workflow E s w = (r, w') \<Longrightarrow> extends_log w w'"
  by (auto simp add: workflow_def extends_log_refl
      split: sum.splits prod.splits if_splits
      dest!: extends_log_agent_check_relevance extends_log_agent_convert_to_sql
        extends_log_agent_execute_sql extends_log_agent_generate_human_readable
      intro: extends_log_trans)

lemma snd_run: "snd (run graph q w) = snd (graph (initial_state q) w)"
  by (simp add: run_def split: prod.splits sum.splits pyval.splits)

section \<open>The orchestrator's outer boundary\<close>

text \<open>
  C2. For every question and every compiled graph, \<open>run\<close> returns (it never raises) a
  dictionary whose keys are \<open>query_result\<close>, \<open>relevance_result\<close> and \<open>sql_query\<close>; and
  when the graph's invocation raises \<open>e\<close>, that dictionary is
  \<^verbatim>\<open>{query_result: "Error processing request: " + str(e), relevance_result: None,
  sql_query: None}\<close>.
\<close>

theorem run_never_raises:
  "\<exists>d w'. run graph question w = (Inr d, w') \<and>
      map fst d = [''query_result'', ''relevance_result'', ''sql_query''] \<and>
      (\<forall>e w1. graph (initial_state question) w = (Inl e, w1) \<longrightarrow>
         d = [(''query_result'', PStr (''Error processing request: '' @ exc_str e)),
              (''relevance_result'', PNone), (''sql_query'', PNone)])"
proof (cases "graph (initial_state question) w")
  case (Pair r w1)
  show ?thesis
  proof (cases r)
    case (Inl e)
    with Pair show ?thesis by (simp add: run_def)
  next
    case (Inr v)
    with Pair show ?thesis by (cases v) (simp_all add: run_def)
  qed
qed

theorem run_never_raises_witness:
  "(\<lambda>s w. (Inl (Error ''recursion limit reached''), w)) (initial_state ''How many customers?'')
      world0 = (Inl (Error ''recursion limit reached''), world0)
   \<and> fst (run (\<lambda>s w. (Inl (Error ''recursion limit reached''), w)) ''How many customers?''
        world0)
     = Inr [(''query_result'', PStr ''Error processing request: recursion limit reached''),
            (''relevance_result'', PNone), (''sql_query'', PNone)]"
proof -
  obtain d w' where
    r: "run (\<lambda>s w. (Inl (Error ''recursion limit reached''), w)) ''How many customers?''
          world0 = (Inr d, w')"
    and e: "\<forall>e w1. (\<lambda>s w. (Inl (Error ''recursion limit reached''), w))
                (initial_state ''How many customers?'') world0 = (Inl e, w1) \<longrightarrow>
              d = [(''query_result'', PStr (''Error processing request: '' @ exc_str e)),
                   (''relevance_result'', PNone), (''sql_query'', PNone)]"
    using run_never_raises [of "\<lambda>s w. (Inl (Error ''recursion limit reached''), w)"
        "''How many customers?''" world0]
    by blast
  from e have "d = [(''query_result'', PStr ''Error processing request: recursion limit reached''),
                    (''relevance_result'', PNone), (''sql_query'', PNone)]"
    by simp
  with r show ?thesis by simp
qed

section \<open>The pipeline\<close>

lemma agent_check_relevance_initial:
  assumes "check_relevance E (PStr q) w = (Inr (PDict rr), w1)"
  shows "agent_check_relevance E (initial_state q) w =
           (Inr (dict_set (initial_state q) ''relevance_result'' (PDict rr)), w1)"
  using assms by (simp add: agent_check_relevance_def initial_state_def dict_item_Cons)

lemma route_relevant:
  "route (dict_set (initial_state q) ''relevance_result'' (PDict rr)) =
     Inr (if truthy (dict_get rr ''relevant'' (PBool False)) then ''convert_to_sql'' else END)"
  by (simp add: route_def dict_item_dict_set py_get_def)

lemma END_neq: "''convert_to_sql'' \<noteq> END"
  by (simp add: END_def)

lemma formatter_args_query_result:
  "formatter_args (dict_set s ''query_result'' v) = formatter_args s"
  by (simp add: formatter_args_def dict_item_dict_set split: sum.splits)


text \<open>
  C1, as the code has it. When the classifier's result has a falsy \<open>relevant\<close>, \<open>run\<close>
  returns the \<open>query_result\<close> it started with, the empty string; \<open>relevance_result\<close>
  is the classifier's result (the explanation is in there and nowhere else), \<open>sql_query\<close>
  is empty, the log grows by the one entry of \<open>check_relevance\<close>, and no session is
  used: synthesis, execution and formatting are not invoked.
\<close>

theorem run_irrelevant:
  assumes "check_relevance E (PStr q) w = (Inr (PDict rr), w1)"
    and "\<not> truthy (dict_get rr ''relevant'' (PBool False))"
  shows "run (workflow E) q w =
           (Inr [(''query_result'', PStr []), (''relevance_result'', PDict rr),
                 (''sql_query'', PStr [])], w1)
         \<and> map tool_name (new_invocations w w1) = [''check_relevance'']
         \<and> db_log w1 = db_log w"
proof -
  have "run (workflow E) q w =
           (Inr [(''query_result'', PStr []), (''relevance_result'', PDict rr),
                 (''sql_query'', PStr [])], w1)"
    using assms
    by (simp add: run_def workflow_def agent_check_relevance_def initial_state_def
        dict_item_def dict_set_def route_def py_get_def dict_get_def END_def)
  moreover obtain i where "invocations (monitor w1) = invocations (monitor w) @ [i]"
      "tool_name i = ''check_relevance''"
    using check_relevance_world(1) [OF assms(1)] by blast
  then have "map tool_name (new_invocations w w1) = [''check_relevance'']"
    by (simp add: new_invocations_append)
  moreover have "db_log w1 = db_log w"
    using check_relevance_world(2) [OF assms(1)] .
  ultimately show ?thesis by simp
qed

text \<open>
  C1 as stated fails on the \<open>query_result\<close>. The classifier finds the weather question
  irrelevant and explains why; \<open>run\<close> returns an empty \<open>query_result\<close>, not that
  explanation.
\<close>

theorem run_irrelevant_explanation_counterexample:
  "fst (check_relevance env_irrelevant (PStr ''What is the weather today?'') world0) =
     Inr (PDict [(''relevant'', PBool False), (''tables'', PList []),
                 (''breakdown'', default_breakdown),
                 (''explanation'', PStr ''The question is about the weather.'')])
   \<and> fst (run (workflow env_irrelevant) ''What is the weather today?'' world0) =
     Inr [(''query_result'', PStr []),
          (''relevance_result'',
           PDict [(''relevant'', PBool False), (''tables'', PList []),
                  (''breakdown'', default_breakdown),
                  (''explanation'', PStr ''The question is about the weather.'')]),
          (''sql_query'', PStr [])]"
  by (simp add: env_irrelevant_def env0_def world0_def run_def run_defs)

text \<open>The hypotheses of C1 at that input, and the one entry in the log.\<close>

theorem run_irrelevant_witness:
  "\<not> truthy (dict_get [(''relevant'', PBool False), (''tables'', PList []),
                 (''breakdown'', default_breakdown),
                 (''explanation'', PStr ''The question is about the weather.'')]
         ''relevant'' (PBool False))
   \<and> fst (run (workflow env_irrelevant) ''What is the weather today?'' world0) =
       Inr [(''query_result'', PStr []),
          (''relevance_result'',
           PDict [(''relevant'', PBool False), (''tables'', PList []),
                  (''breakdown'', default_breakdown),
                  (''explanation'', PStr ''The question is about the weather.'')]),
          (''sql_query'', PStr [])]
   \<and> map tool_name (invocations (monitor (snd
         (run (workflow env_irrelevant) ''What is the weather today?'' world0)))) =
       [''check_relevance'']"
proof -
  let ?q = "''What is the weather today?''"
  let ?rr = "[(''relevant'', PBool False), (''tables'', PList []),
                 (''breakdown'', default_breakdown),
                 (''explanation'', PStr ''The question is about the weather.'')]"
  let ?w1 = "snd (check_relevance env_irrelevant (PStr ?q) world0)"
  have "fst (check_relevance env_irrelevant (PStr ?q) world0) = Inr (PDict ?rr)"
    by (simp add: env_irrelevant_def env0_def world0_def check_defs)
  then have h1: "check_relevance env_irrelevant (PStr ?q) world0 = (Inr (PDict ?rr), ?w1)"
    by (simp add: prod_eq_iff)
  have h2: "\<not> truthy (dict_get ?rr ''relevant'' (PBool False))"
    by (simp add: dict_get_def)
  from run_irrelevant [OF h1 h2] h2 show ?thesis
    by (simp add: new_invocations_def world0_def)
qed



text \<open>
  C5, as the code has it. Take a run in which the question is relevant, synthesis
  yields a non-empty statement, and its execution fails: the executor returns
  \<open>success = False\<close> with the driver's text, or raises. Then after \<open>execute_sql\<close> the
  state has \<open>sql_error\<close> true and empty \<open>query_rows\<close> and \<open>columns\<close>, and its
  \<open>query_result\<close> holds the failure text. The formatter is called with the statement
  and with \<open>rows\<close>, \<open>columns\<close>, \<open>success = False\<close> and the question: the failure text
  is not among its arguments, and the formatter's response then replaces the
  \<open>query_result\<close> that held it.
\<close>

theorem execution_failure_state:
  assumes cr: "check_relevance E (PStr q) w = (Inr (PDict rr), w1)"
    and rel: "truthy (dict_get rr ''relevant'' (PBool False))"
    and cs: "convert_to_sql E (PStr q) (PDict rr) w1 = (Inr (PStr sql), w2)"
    and ne: "sql \<noteq> []"
    and ex: "execute_sql_query E (PStr sql) w2 = (r, w3)"
    and fail: "r = Inr (failure_result e) \<or> r = Inl e"
  shows "\<exists>s2 s3 resp w4.
           agent_convert_to_sql E (dict_set (initial_state q) ''relevance_result'' (PDict rr)) w1
             = (Inr s2, w2) \<and>
           agent_execute_sql E s2 w2 = (Inr s3, w3) \<and>
           dict_item s3 ''sql_error'' = Inr (PBool True) \<and>
           dict_item s3 ''query_rows'' = Inr (PList []) \<and>
           dict_item s3 ''columns'' = Inr (PList []) \<and>
           dict_item s3 ''query_result'' =
             Inr (PStr ((case r of Inl x \<Rightarrow> ''Error executing SQL: '' | Inr x \<Rightarrow> ''Error: '')
                        @ exc_str e)) \<and>
           formatter_args s3 =
             Inr (PStr sql, PDict [(''rows'', PList []), (''columns'', PList []),
                                   (''success'', PBool False), (''question'', PStr q)]) \<and>
           generate_human_readable E (PStr sql)
             (PDict [(''rows'', PList []), (''columns'', PList []),
                     (''success'', PBool False), (''question'', PStr q)]) w3
             = (Inr resp, w4) \<and>
           workflow E (initial_state q) w = (Inr (PDict (dict_set s3 ''query_result'' resp)), w4)"
proof -
  let ?s1 = "dict_set (initial_state q) ''relevance_result'' (PDict rr)"
  let ?s2 = "dict_set (dict_set ?s1 ''sql_query'' (PStr sql)) ''sql_error'' (PBool False)"
  let ?msg = "(case r of Inl x \<Rightarrow> ''Error executing SQL: '' | Inr x \<Rightarrow> ''Error: '') @ exc_str e"
  let ?s3 = "dict_set (dict_set ?s2 ''sql_error'' (PBool True)) ''query_result'' (PStr ?msg)"
  let ?ctx = "PDict [(''rows'', PList []), (''columns'', PList []),
                     (''success'', PBool False), (''question'', PStr q)]"
  have n1: "agent_check_relevance E (initial_state q) w = (Inr ?s1, w1)"
    by (rule agent_check_relevance_initial [OF cr])
  have n2: "agent_convert_to_sql E ?s1 w1 = (Inr ?s2, w2)"
    using cs ne
    by (simp add: agent_convert_to_sql_def dict_item_dict_set initial_state_def dict_item_Cons)
  have q2: "dict_item ?s2 ''sql_query'' = Inr (PStr sql)"
    by (simp add: dict_item_dict_set)
  have n3: "agent_execute_sql E ?s2 w2 = (Inr ?s3, w3)"
    using q2 ne ex fail
    by (auto simp add: agent_execute_sql_def sql_execution_failed_def failure_result_def
        py_get_def dict_get_def py_str_def)
  have fa: "formatter_args ?s3 = Inr (PStr sql, ?ctx)"
    by (simp add: formatter_args_def dict_item_dict_set initial_state_def dict_item_Cons)
  obtain r' w4 where g: "generate_human_readable E (PStr sql) ?ctx w3 = (r', w4)"
    by (cases "generate_human_readable E (PStr sql) ?ctx w3")
  from generate_human_readable_world(3) [OF g] obtain resp where r': "r' = Inr (PStr resp)"
    by blast
  have n4: "agent_generate_human_readable E ?s3 w3 =
              (Inr (dict_set ?s3 ''query_result'' (PStr resp)), w4)"
    using g r' fa by (simp add: agent_generate_human_readable_def)
  have wf: "workflow E (initial_state q) w =
              (Inr (PDict (dict_set ?s3 ''query_result'' (PStr resp))), w4)"
    using n1 n2 n3 n4 rel by (simp add: workflow_def route_relevant END_neq)
  have st: "dict_item ?s3 ''sql_error'' = Inr (PBool True)"
      "dict_item ?s3 ''query_rows'' = Inr (PList [])"
      "dict_item ?s3 ''columns'' = Inr (PList [])"
      "dict_item ?s3 ''query_result'' = Inr (PStr ?msg)"
    by (simp_all add: dict_item_dict_set initial_state_def dict_item_Cons)
  show ?thesis
    apply (rule exI [of _ ?s2], rule exI [of _ ?s3], rule exI [of _ "PStr resp"],
        rule exI [of _ w4])
    using n2 n3 st fa g r' wf by simp
qed

text \<open>
  C5 as stated fails on the formatter's context. The driver rejects the statement with
  \<^verbatim>\<open>syntax error\<close> (the executor's recorded output says so); the final state has
  \<open>sql_error\<close> true, and the arguments the formatter is given from it (the last node
  changes \<open>query_result\<close> only, which is not among them) do not contain that text.
\<close>

theorem formatter_context_counterexample:
  "(case fst (workflow env_bad_sql (initial_state ''How many customers are there?'') world0) of
      Inr (PDict s) \<Rightarrow>
        dict_item s ''sql_error'' = Inr (PBool True) \<and>
        formatter_args s =
          Inr (PStr ''SELEC * FROM dbo.customers'',
               PDict [(''rows'', PList []), (''columns'', PList []),
                      (''success'', PBool False),
                      (''question'', PStr ''How many customers are there?'')])
    | _ \<Rightarrow> False)
   \<and> map outputs (invocations (monitor (snd
        (workflow env_bad_sql (initial_state ''How many customers are there?'') world0)))) ! 2
       = PDict [(''success'', PBool False), (''error'', PStr ''syntax error'')]
   \<and> \<not> mentions ''syntax error'' (PStr ''SELEC * FROM dbo.customers'')
   \<and> \<not> mentions ''syntax error''
         (PDict [(''rows'', PList []), (''columns'', PList []),
                 (''success'', PBool False),
                 (''question'', PStr ''How many customers are there?'')])"
proof -
  have m: "\<not> mentions ''syntax error'' (PStr ''SELEC * FROM dbo.customers'')"
    "\<not> mentions ''syntax error''
         (PDict [(''rows'', PList []), (''columns'', PList []),
                 (''success'', PBool False),
                 (''question'', PStr ''How many customers are there?'')])"
    by code_simp+
  show ?thesis
    using m by (simp add: env_bad_sql_def env0_def world0_def run_defs)
qed

text \<open>The hypotheses of C5 at that input.\<close>

theorem execution_failure_state_witness:
  "fst (execute_sql_query env_bad_sql (PStr ''SELEC * FROM dbo.customers'')
          (snd (convert_to_sql env_bad_sql (PStr ''How many customers are there?'')
             (PDict [(''relevant'', PBool True), (''tables'', PList []),
                     (''breakdown'', default_breakdown),
                     (''explanation'', PStr ''about customers'')])
             (snd (check_relevance env_bad_sql (PStr ''How many customers are there?'')
                world0)))))
     = Inr (failure_result (Error ''syntax error''))
   \<and> (\<exists>s. fst (workflow env_bad_sql (initial_state ''How many customers are there?'') world0)
            = Inr (PDict s) \<and>
          dict_item s ''sql_error'' = Inr (PBool True) \<and>
          dict_item s ''query_rows'' = Inr (PList []) \<and>
          dict_item s ''columns'' = Inr (PList []) \<and>
          dict_item s ''query_result'' = Inr (PStr ''There is one customer.''))"
proof -
  let ?q = "''How many customers are there?''"
  let ?sql = "''SELEC * FROM dbo.customers''"
  let ?rr = "[(''relevant'', PBool True), (''tables'', PList []),
                     (''breakdown'', default_breakdown),
                     (''explanation'', PStr ''about customers'')]"
  let ?w1 = "snd (check_relevance env_bad_sql (PStr ?q) world0)"
  let ?w2 = "snd (convert_to_sql env_bad_sql (PStr ?q) (PDict ?rr) ?w1)"
  let ?w3 = "snd (execute_sql_query env_bad_sql (PStr ?sql) ?w2)"
  let ?ctx = "PDict [(''rows'', PList []), (''columns'', PList []),
                  (''success'', PBool False), (''question'', PStr ?q)]"
  have "fst (check_relevance env_bad_sql (PStr ?q) world0) = Inr (PDict ?rr)"
    by (simp add: env_bad_sql_def env0_def world0_def check_defs)
  then have h1: "check_relevance env_bad_sql (PStr ?q) world0 = (Inr (PDict ?rr), ?w1)"
    by (simp add: prod_eq_iff)
  have h2: "truthy (dict_get ?rr ''relevant'' (PBool False))"
    by (simp add: dict_get_def)
  have "fst (convert_to_sql env_bad_sql (PStr ?q) (PDict ?rr) ?w1) = Inr (PStr ?sql)"
    by (simp add: convert_to_sql_fst env_bad_sql_def env0_def)
  then have h3: "convert_to_sql env_bad_sql (PStr ?q) (PDict ?rr) ?w1 = (Inr (PStr ?sql), ?w2)"
    by (simp add: prod_eq_iff)
  have h4: "?sql \<noteq> []" by simp
  have f5: "fst (execute_sql_query env_bad_sql (PStr ?sql) ?w2) =
              Inr (failure_result (Error ''syntax error''))"
    by (simp add: execute_sql_query_unfold get_db_def execute_sql_query_body_def Let_def
        env_bad_sql_def env0_def log_db_def split: prod.splits)
  then have h5: "execute_sql_query env_bad_sql (PStr ?sql) ?w2 =
              (Inr (failure_result (Error ''syntax error'')), ?w3)"
    by (simp add: prod_eq_iff)
  have h6: "Inr (failure_result (Error ''syntax error'')) =
              Inr (failure_result (Error ''syntax error''))
            \<or> (Inr (failure_result (Error ''syntax error'')) :: exn + pyval) =
              Inl (Error ''syntax error'')"
    by simp
  from execution_failure_state [OF h1 h2 h3 h4 h5 h6]
  obtain s3 resp w4 where
    st: "dict_item s3 ''sql_error'' = Inr (PBool True)"
        "dict_item s3 ''query_rows'' = Inr (PList [])"
        "dict_item s3 ''columns'' = Inr (PList [])"
    and g: "generate_human_readable env_bad_sql (PStr ?sql) ?ctx ?w3 = (Inr resp, w4)"
    and wf: "workflow env_bad_sql (initial_state ?q) world0 =
               (Inr (PDict (dict_set s3 ''query_result'' resp)), w4)"
    by (elim exE conjE) (rule that)
  have "fst (generate_human_readable env_bad_sql (PStr ?sql) ?ctx ?w3)
        = Inr (PStr ''There is one customer.'')"
    by (simp add: generate_human_readable_def generate_human_readable_func_def tool_monitor_def
        Let_def env_bad_sql_def env0_def)
  with g have resp: "resp = PStr ''There is one customer.''" by simp
  have "\<exists>s. fst (workflow env_bad_sql (initial_state ?q) world0) = Inr (PDict s) \<and>
          dict_item s ''sql_error'' = Inr (PBool True) \<and>
          dict_item s ''query_rows'' = Inr (PList []) \<and>
          dict_item s ''columns'' = Inr (PList []) \<and>
          dict_item s ''query_result'' = Inr (PStr ''There is one customer.'')"
    using wf st resp by (simp add: dict_item_dict_set)
  with f5 show ?thesis by simp
qed

text \<open>
  C10. The entry that the wrapper records has the caller's keyword arguments as its
  inputs, whatever the positional arguments are. The orchestrator passes every
  argument positionally, so a run keeps the log it found and every entry it adds has
  an empty inputs mapping.
\<close>

theorem recorded_inputs_empty:
  "inputs (last (invocations (monitor (snd (tool_monitor E name args kwargs body w))))) = kwargs
   \<and> prefix (invocations (monitor w)) (invocations (monitor (snd (run (workflow E) q w))))
   \<and> (\<forall>i \<in> set (new_invocations w (snd (run (workflow E) q w))). inputs i = [])"
proof -
  have "extends_log w (snd (run (workflow E) q w))"
    using extends_log_workflow [of E "initial_state q" w] by (simp add: snd_run prod_eq_iff)
  then have "prefix (invocations (monitor w)) (invocations (monitor (snd (run (workflow E) q w))))
      \<and> (\<forall>i \<in> set (new_invocations w (snd (run (workflow E) q w))). inputs i = [])"
    by (auto simp add: extends_log_def new_invocations_def)
  moreover have "inputs (last (invocations (monitor (snd (tool_monitor E name args kwargs body w)))))
      = kwargs"
    by (simp add: tool_monitor_def Let_def invocations_end_invocation split: prod.splits sum.splits)
  ultimately show ?thesis by simp
qed

text \<open>
  C10 at concrete inputs: a run that records all four tools, and a call with one
  positional and one keyword argument.
\<close>

theorem recorded_inputs_empty_witness:
  "map tool_name (new_invocations world0
       (snd (run (workflow env_bad_sql) ''How many customers are there?'' world0))) =
     [''check_relevance'', ''convert_to_sql'', ''execute_sql_query'', ''generate_human_readable'']
   \<and> map inputs (new_invocations world0
       (snd (run (workflow env_bad_sql) ''How many customers are there?'' world0)))
       = [[], [], [], []]
   \<and> inputs (last (invocations (monitor (snd
        (tool_monitor env0 ''probe'' [PInt 1] [(''limit'', PInt 5)]
           (\<lambda>w. (Inr PNone, w)) world0))))) = [(''limit'', PInt 5)]"
proof -
  let ?w = "snd (run (workflow env_bad_sql) ''How many customers are there?'' world0)"
  have names: "map tool_name (new_invocations world0 ?w) =
     [''check_relevance'', ''convert_to_sql'', ''execute_sql_query'', ''generate_human_readable'']"
    by (simp add: snd_run new_invocations_def env_bad_sql_def env0_def world0_def run_defs)
  note t = recorded_inputs_empty [of env0 "''probe''" "[PInt 1]" "[(''limit'', PInt 5)]"
      "\<lambda>w. (Inr PNone, w)" world0]
  note u = recorded_inputs_empty [of env_bad_sql "''probe''" "[]" "[]"
      "\<lambda>w. (Inr PNone, w)" world0 "''How many customers are there?''"]
  from u have all: "\<forall>i \<in> set (new_invocations world0 ?w). inputs i = []" by blast
  from names have len: "length (new_invocations world0 ?w) = 4"
    using length_map [of tool_name "new_invocations world0 ?w"] by simp
  from all have "map inputs (new_invocations world0 ?w) =
      map (\<lambda>i. []) (new_invocations world0 ?w)"
    by simp
  also have "\<dots> = replicate (length (new_invocations world0 ?w)) []"
    by (simp only: map_replicate_const)
  also have "\<dots> = [[], [], [], []]"
    by (simp add: len numeral_eq_Suc)
  finally have "map inputs (new_invocations world0 ?w) = [[], [], [], []]" .
  moreover from t have "inputs (last (invocations (monitor (snd
        (tool_monitor env0 ''probe'' [PInt 1] [(''limit'', PInt 5)]
           (\<lambda>w. (Inr PNone, w)) world0))))) = [(''limit'', PInt 5)]"
    by blast
  ultimately show ?thesis using names by simp
qed

end
